theory Spec2Isabelle
  imports Complex_Main
begin

section \<open>Values shared by the client and the server\<close>

text \<open>
  A JavaScript \<^verbatim>\<open>number\<close> is modelled as a real: prices, quantities and totals are
  added, multiplied and compared exactly, and the rounding of IEEE doubles is left out.
  A string is a list of 8-bit characters, an optional or possibly missing field is an
  \<open>option\<close>, and a missing string and the empty string are both falsy.
\<close>

type_synonym number = real

text \<open>The interface \<^verbatim>\<open>Book\<close> of \<^verbatim>\<open>types/index.ts\<close>; the field \<^verbatim>\<open>_id\<close> is
  \<open>id_mongo\<close> and the field \<^verbatim>\<open>id\<close> is \<open>id_compat\<close>. The fields no function of the
  cart or of the order controller reads (class, description, isbn, ...) are left out.\<close>

record book =
  id_mongo :: "string option"
  id_compat :: "string option"
  title :: string
  publisher :: string
  price :: number
  image_url :: string

text \<open>Truthiness of a possibly missing string: \<^verbatim>\<open>undefined\<close> and \<^verbatim>\<open>""\<close> are falsy.\<close>

fun truthy :: "string option \<Rightarrow> bool" where
  "truthy None = False"
| "truthy (Some s) = (s \<noteq> [])"

text \<open>The expression \<^verbatim>\<open>book._id || book.id\<close>.\<close>

definition bookKey :: "book \<Rightarrow> string option" where
  "bookKey b = (if truthy (id_mongo b) then id_mongo b else id_compat b)"

section \<open>The cart store (\<^verbatim>\<open>hooks/useCart.ts\<close>)\<close>

record cart_item =
  book :: book
  quantity :: number

record cart =
  items :: "cart_item list"
  totalItems :: number
  totalPrice :: number

text \<open>\<^verbatim>\<open>calculateTotals\<close>: two left folds (\<^verbatim>\<open>reduce\<close>) from 0.\<close>

definition calculateTotals :: "cart_item list \<Rightarrow> number \<times> number" where
  "calculateTotals its =
     (foldl (\<lambda>sum item. sum + quantity item) 0 its,
      foldl (\<lambda>sum item. sum + price (book item) * quantity item) 0 its)"

text \<open>The initial state of the store.\<close>

definition initialCart :: cart where
  "initialCart = \<lparr>items = [], totalItems = 0, totalPrice = 0\<rparr>"

text \<open>\<^verbatim>\<open>set({ items: newItems, totalItems, totalPrice })\<close> after \<^verbatim>\<open>calculateTotals(newItems)\<close>.\<close>

definition setItems :: "cart_item list \<Rightarrow> cart" where
  "setItems newItems =
     (let (ti, tp) = calculateTotals newItems
      in \<lparr>items = newItems, totalItems = ti, totalPrice = tp\<rparr>)"

text \<open>\<^verbatim>\<open>addToCart(book, quantity)\<close>: nothing happens for a book with no identifier; an
  existing entry for the identifier has the quantity added, otherwise an entry is appended.\<close>

definition addToCart :: "book \<Rightarrow> number \<Rightarrow> cart \<Rightarrow> cart" where
  "addToCart b q s =
     (let bookId = bookKey b in
      if \<not> truthy bookId then s
      else
        (case find (\<lambda>item. bookKey (book item) = bookId) (items s) of
           Some existingItem \<Rightarrow>
             setItems (map (\<lambda>item. if bookKey (book item) = bookId
                                    then item\<lparr>quantity := quantity item + q\<rparr>
                                    else item) (items s))
         | None \<Rightarrow> setItems (items s @ [\<lparr>book = b, quantity = q\<rparr>])))"

text \<open>\<^verbatim>\<open>removeFromCart(bookId)\<close>: nothing happens when no entry has the identifier.\<close>

definition removeFromCart :: "string \<Rightarrow> cart \<Rightarrow> cart" where
  "removeFromCart bookId s =
     (case find (\<lambda>item. bookKey (book item) = Some bookId) (items s) of
        None \<Rightarrow> s
      | Some itemToRemove \<Rightarrow>
          setItems (filter (\<lambda>item. bookKey (book item) \<noteq> Some bookId) (items s)))"

text \<open>\<^verbatim>\<open>updateQuantity(bookId, quantity)\<close>.\<close>

definition updateQuantity :: "string \<Rightarrow> number \<Rightarrow> cart \<Rightarrow> cart" where
  "updateQuantity bookId q s =
     (if q \<le> 0 then removeFromCart bookId s
      else setItems (map (\<lambda>item. if bookKey (book item) = Some bookId
                                  then item\<lparr>quantity := q\<rparr>
                                  else item) (items s)))"

text \<open>\<^verbatim>\<open>clearCart()\<close>.\<close>

definition clearCart :: "cart \<Rightarrow> cart" where
  "clearCart s = \<lparr>items = [], totalItems = 0, totalPrice = 0\<rparr>"

text \<open>The four mutating actions of the store, and a run of a sequence of them.\<close>

datatype cart_op =
    AddToCart book number
  | RemoveFromCart string
  | UpdateQuantity string number
  | ClearCart

fun applyOp :: "cart_op \<Rightarrow> cart \<Rightarrow> cart" where
  "applyOp (AddToCart b q) s = addToCart b q s"
| "applyOp (RemoveFromCart i) s = removeFromCart i s"
| "applyOp (UpdateQuantity i q) s = updateQuantity i q s"
| "applyOp ClearCart s = clearCart s"

definition runOps :: "cart_op list \<Rightarrow> cart \<Rightarrow> cart" where
  "runOps ops s = foldl (\<lambda>st op. applyOp op st) s ops"

text \<open>The invariant of the derived fields: they are the sums over the current items.\<close>

definition totalsOk :: "cart \<Rightarrow> bool" where
  "totalsOk s \<longleftrightarrow>
     totalItems s = sum_list (map quantity (items s)) \<and>
     totalPrice s = sum_list (map (\<lambda>item. quantity item * price (book item)) (items s))"

subsection \<open>Persistence and rehydration\<close>

text \<open>
  What local storage holds is untyped JSON: an entry may have no \<^verbatim>\<open>book\<close> at all, or a
  book with neither identifier. \<^verbatim>\<open>partialize\<close> writes the list of \<^verbatim>\<open>{book, quantity}\<close>
  of the entries that have an identifier, and nothing else.
\<close>

record stored_item =
  stored_book :: "book option"
  stored_quantity :: number

definition toStored :: "cart_item \<Rightarrow> stored_item" where
  "toStored item = \<lparr>stored_book = Some (book item), stored_quantity = quantity item\<rparr>"

definition partialize :: "cart \<Rightarrow> stored_item list" where
  "partialize s =
     map toStored (filter (\<lambda>item. truthy (bookKey (book item))) (items s))"

text \<open>The state of the store while it is rehydrated: the items are the stored entries.\<close>

record raw_cart =
  raw_items :: "stored_item list"
  raw_totalItems :: number
  raw_totalPrice :: number

text \<open>The test \<^verbatim>\<open>item.book && (item.book._id || item.book.id)\<close> of \<^verbatim>\<open>cleanupCart\<close>,
  returning the entry as a typed \<^verbatim>\<open>CartItem\<close> when it holds.\<close>

definition validItem :: "stored_item \<Rightarrow> cart_item option" where
  "validItem item =
     (case stored_book item of
        None \<Rightarrow> None
      | Some b \<Rightarrow> if truthy (bookKey b)
                  then Some \<lparr>book = b, quantity = stored_quantity item\<rparr>
                  else None)"

text \<open>\<^verbatim>\<open>cleanupCart\<close>: the totals are written only when an entry was dropped.\<close>

definition cleanupCart :: "raw_cart \<Rightarrow> cart" where
  "cleanupCart st =
     (let validItems = List.map_filter validItem (raw_items st) in
      if length validItems \<noteq> length (raw_items st) then setItems validItems
      else \<lparr>items = validItems, totalItems = raw_totalItems st,
            totalPrice = raw_totalPrice st\<rparr>)"

text \<open>
  Rehydration by the \<^verbatim>\<open>persist\<close> middleware of the store library: the stored object
  (here \<^verbatim>\<open>{items}\<close>, as \<^verbatim>\<open>partialize\<close> writes it) is merged over the current state of
  the store, field by field, so \<^verbatim>\<open>totalItems\<close> and \<^verbatim>\<open>totalPrice\<close> keep the values of
  the current state; then the callback of \<^verbatim>\<open>onRehydrateStorage\<close> runs \<^verbatim>\<open>cleanupCart\<close>.
  With nothing stored the current state is kept.
\<close>

definition rehydrate :: "cart \<Rightarrow> stored_item list option \<Rightarrow> cart" where
  "rehydrate current stored =
     (case stored of
        None \<Rightarrow>
          cleanupCart \<lparr>raw_items = map toStored (items current),
                       raw_totalItems = totalItems current,
                       raw_totalPrice = totalPrice current\<rparr>
      | Some blob \<Rightarrow>
          cleanupCart \<lparr>raw_items = blob,
                       raw_totalItems = totalItems current,
                       raw_totalPrice = totalPrice current\<rparr>)"

section \<open>Strings and the two validation patterns\<close>

text \<open>White space as \<^verbatim>\<open>\s\<close> and \<^verbatim>\<open>trim()\<close> see it, among the 8-bit characters: tab,
  line feed, vertical tab, form feed, carriage return, space and no-break space.\<close>

definition is_space :: "char \<Rightarrow> bool" where
  "is_space c \<longleftrightarrow>
     c \<in> set [CHR 0x09, CHR 0x0A, CHR 0x0B, CHR 0x0C, CHR 0x0D, CHR 0x20, CHR 0xA0]"

definition is_digit :: "char \<Rightarrow> bool" where
  "is_digit c \<longleftrightarrow> c \<in> set ''0123456789''"

definition trim :: "string \<Rightarrow> string" where
  "trim s = rev (dropWhile is_space (rev (dropWhile is_space s)))"

text \<open>The number of digit characters of a string.\<close>

definition digits :: "string \<Rightarrow> nat" where
  "digits s = length (filter is_digit s)"

text \<open>
  The character classes and the operators the two patterns use: \<^verbatim>\<open>\d\<close>, \<^verbatim>\<open>[-.\s]\<close>, a
  literal character and \<^verbatim>\<open>[^\s@]\<close>; concatenation, \<^verbatim>\<open>?\<close>, \<^verbatim>\<open>+\<close> on a class, and
  \<^verbatim>\<open>{m,n}\<close> unfolded into the other two.
\<close>

datatype cls = Digit | Sep | Lit char | NotSpaceAt

fun in_cls :: "cls \<Rightarrow> char \<Rightarrow> bool" where
  "in_cls Digit c = is_digit c"
| "in_cls Sep c = (c = CHR ''-'' \<or> c = CHR ''.'' \<or> is_space c)"
| "in_cls (Lit l) c = (c = l)"
| "in_cls NotSpaceAt c = (\<not> is_space c \<and> c \<noteq> CHR ''@'')"

datatype rexp = Eps | Chr cls | Many1 cls | Cat rexp rexp | Opt rexp

fun many1 :: "cls \<Rightarrow> string \<Rightarrow> string list" where
  "many1 k [] = []"
| "many1 k (c # cs) = (if in_cls k c then cs # many1 k cs else [])"

text \<open>\<open>remainders r s\<close> lists what is left of \<open>s\<close> after each way \<open>r\<close> matches a prefix
  of it: every choice of the backtracking matcher is followed.\<close>

fun remainders :: "rexp \<Rightarrow> string \<Rightarrow> string list" where
  "remainders Eps s = [s]"
| "remainders (Chr k) s =
     (case s of [] \<Rightarrow> [] | c # cs \<Rightarrow> if in_cls k c then [cs] else [])"
| "remainders (Many1 k) s = many1 k s"
| "remainders (Cat r1 r2) s = concat (map (remainders r2) (remainders r1 s))"
| "remainders (Opt r) s = remainders r s @ [s]"

text \<open>\<^verbatim>\<open>r{m,n}\<close> and the concatenation of a list of patterns.\<close>

fun rep :: "nat \<Rightarrow> nat \<Rightarrow> rexp \<Rightarrow> rexp" where
  "rep 0 0 r = Eps"
| "rep 0 (Suc n) r = Opt (Cat r (rep 0 n r))"
| "rep (Suc m) n r = Cat r (rep m (n - 1) r)"

definition cats :: "rexp list \<Rightarrow> rexp" where
  "cats rs = foldr Cat rs Eps"

text \<open>\<^verbatim>\<open>/^r$/.test(s)\<close>: some way of matching uses up the whole string.\<close>

definition regex_test :: "rexp \<Rightarrow> string \<Rightarrow> bool" where
  "regex_test r s \<longleftrightarrow> [] \<in> set (remainders r s)"

text \<open>\<^verbatim>\<open>/^\+?(\d{1,3})?[-.\s]?(\(?\d{3}\)?[-.\s]?)?(\d[-.\s]?){6,15}\d$/\<close>, the pattern of the
  checkout page, of the customer schema and of the order route.\<close>

definition PHONE_REGEX :: rexp where
  "PHONE_REGEX = cats
     [Opt (Chr (Lit CHR ''+'')),
      Opt (rep 1 3 (Chr Digit)),
      Opt (Chr Sep),
      Opt (cats [Opt (Chr (Lit CHR ''('')), rep 3 3 (Chr Digit),
                 Opt (Chr (Lit CHR '')'')), Opt (Chr Sep)]),
      rep 6 15 (cats [Chr Digit, Opt (Chr Sep)]),
      Chr Digit]"

text \<open>\<^verbatim>\<open>/^[^\s@]+@[^\s@]+\.[^\s@]+$/\<close>.\<close>

definition EMAIL_REGEX :: rexp where
  "EMAIL_REGEX = cats
     [Many1 NotSpaceAt, Chr (Lit CHR ''@''), Many1 NotSpaceAt,
      Chr (Lit CHR ''.''), Many1 NotSpaceAt]"

text \<open>The least and the greatest number of digits a match of a pattern can hold; the
  greatest is meant for patterns without \<^verbatim>\<open>+\<close>.\<close>

fun cls_min :: "cls \<Rightarrow> nat" where
  "cls_min Digit = 1"
| "cls_min k = 0"

fun cls_max :: "cls \<Rightarrow> nat" where
  "cls_max Sep = 0"
| "cls_max (Lit l) = (if is_digit l then 1 else 0)"
| "cls_max k = 1"

fun dmin :: "rexp \<Rightarrow> nat" where
  "dmin Eps = 0"
| "dmin (Chr k) = cls_min k"
| "dmin (Many1 k) = cls_min k"
| "dmin (Cat r1 r2) = dmin r1 + dmin r2"
| "dmin (Opt r) = 0"

fun dmax :: "rexp \<Rightarrow> nat" where
  "dmax Eps = 0"
| "dmax (Chr k) = cls_max k"
| "dmax (Many1 k) = 0"
| "dmax (Cat r1 r2) = dmax r1 + dmax r2"
| "dmax (Opt r) = dmax r"

fun plus_free :: "rexp \<Rightarrow> bool" where
  "plus_free (Many1 k) = False"
| "plus_free (Cat r1 r2) = (plus_free r1 \<and> plus_free r2)"
| "plus_free (Opt r) = plus_free r"
| "plus_free r = True"

section \<open>The checkout page\<close>

text \<open>\<^verbatim>\<open>CheckoutFormData\<close>.\<close>

record checkoutFormData =
  name :: string
  organization :: "string option"
  phone :: string
  email :: string
  address :: string
  form_notes :: "string option"

datatype field = Name | Organization | Phone | Email | Address | Notes | Submit

text \<open>\<^verbatim>\<open>validateField\<close>: the empty string says the value is valid.\<close>

fun validateField :: "field \<Rightarrow> string \<Rightarrow> string" where
  "validateField Name v =
     (if trim v = [] then ''Name is required''
      else if length (trim v) < 2 then ''Name must be at least 2 characters''
      else [])"
| "validateField Phone v =
     (if trim v = [] then ''Phone number is required''
      else if \<not> regex_test PHONE_REGEX (trim v)
        then ''Please enter a valid phone number (e.g., +1-555-123-4567)''
      else [])"
| "validateField Email v =
     (if trim v = [] then ''Email is required''
      else if \<not> regex_test EMAIL_REGEX (trim v)
        then ''Please enter a valid email address''
      else [])"
| "validateField Address v =
     (if trim v = [] then ''Address is required''
      else if length (trim v) < 10 then ''Address must be at least 10 characters''
      else [])"
| "validateField f v = []"

text \<open>\<^verbatim>\<open>validateForm\<close>: every required field is validated and every error is kept, under
  the name of its field; the form is valid when there is none.\<close>

definition validateForm :: "checkoutFormData \<Rightarrow> (field \<times> string) list" where
  "validateForm formData =
     filter (\<lambda>(f, e). e \<noteq> [])
       [(Name, validateField Name (name formData)),
        (Phone, validateField Phone (phone formData)),
        (Email, validateField Email (email formData)),
        (Address, validateField Address (address formData))]"

text \<open>The body of \<^verbatim>\<open>POST /api/orders\<close>. Its fields may be missing: the server tests them.\<close>

record item_req =
  bookId :: "string option"
  reqQuantity :: "number option"

datatype items_field = ItemsAbsent | ItemsNotArray | ItemsArray "item_req list"

record order_request =
  customer :: checkoutFormData
  req_items :: items_field
  req_totalPrice :: "number option"
  req_notes :: "string option"

text \<open>What the server stores and returns.\<close>

datatype order_status = Pending | Confirmed | Shipped | Delivered | Cancelled

datatype payment_status = PaymentPending | Paid | Failed | Refunded

record order_item =
  item_book :: string
  item_quantity :: number
  item_price :: number
  item_title :: string
  item_publisher :: string
  item_image :: string

record customer_doc =
  c_name :: string
  c_organization :: string
  c_phone :: string
  c_email :: string
  c_address :: string

record created_data =
  data_id :: string
  data_orderId :: string
  data_customer :: customer_doc
  data_items :: "order_item list"
  data_totalPrice :: number
  data_status :: order_status
  data_orderDate :: nat

text \<open>\<^verbatim>\<open>ApiResponse<Order>\<close>, and what awaiting \<^verbatim>\<open>orderApi.createOrder\<close> can do: give a
  response, or throw.\<close>

record api_response =
  success :: bool
  data :: "created_data option"
  error :: "string option"

datatype api_outcome = Returned api_response | Thrown string

text \<open>The mapping of the cart items of \<^verbatim>\<open>handleSubmit\<close>: it throws at the first item
  with no identifier. (A \<^verbatim>\<open>CartItem\<close> has a book by its type, so the test of a missing
  book has no case here.)\<close>

fun orderItems :: "cart_item list \<Rightarrow> string + item_req list" where
  "orderItems [] = Inr []"
| "orderItems (item # rest) =
     (if \<not> truthy (bookKey (book item))
        then Inl (''Invalid book ID for item: '' @ title (book item))
      else (case orderItems rest of
              Inl e \<Rightarrow> Inl e
            | Inr rs \<Rightarrow>
                Inr (\<lparr>bookId = bookKey (book item),
                      reqQuantity = Some (quantity item)\<rparr> # rs)))"

text \<open>What the page does, in order, besides changing the cart.\<close>

datatype ui_event =
    SetErrors "(field \<times> string) list"
  | Submitted order_request
  | ToastSuccess
  | CartCleared
  | RedirectToConfirmation string
  | ToastError

definition submitFailed :: "(field \<times> string) list" where
  "submitFailed = [(Submit, ''Failed to process your order. Please try again.'')]"

text \<open>The object \<^verbatim>\<open>orderData\<close> of \<^verbatim>\<open>handleSubmit\<close>: the form, the items as
  identifier and quantity, the total of the cart as the claimed total, and the notes.\<close>

definition submission :: "checkoutFormData \<Rightarrow> cart \<Rightarrow> item_req list \<Rightarrow> order_request" where
  "submission formData s its =
     \<lparr>customer = formData, req_items = ItemsArray its,
      req_totalPrice = Some (totalPrice s),
      req_notes = Some (if truthy (form_notes formData)
                        then the (form_notes formData) else [])\<rparr>"

text \<open>The identifier the page redirects with: \<^verbatim>\<open>data.orderId || data.id\<close>.\<close>

definition confirmationId :: "created_data \<Rightarrow> string" where
  "confirmationId d = (if data_orderId d \<noteq> [] then data_orderId d else data_id d)"

text \<open>\<^verbatim>\<open>handleSubmit\<close>, with the call of the order API as a parameter. The result is the
  cart afterwards and the events in the order they happen. An invalid form ends the
  handler; an item with no identifier, a thrown error and a response that is not a success
  with data all end in the \<^verbatim>\<open>catch\<close> block. (The flag \<^verbatim>\<open>isSubmitting\<close> and the log are
  left out.)\<close>

definition handleSubmit ::
  "(order_request \<Rightarrow> api_outcome) \<Rightarrow> checkoutFormData \<Rightarrow> cart \<Rightarrow> cart \<times> ui_event list" where
  "handleSubmit createOrderApi formData s =
     (if validateForm formData \<noteq> [] then (s, [SetErrors (validateForm formData)])
      else
        (case orderItems (items s) of
           Inl e \<Rightarrow> (s, [SetErrors [], ToastError, SetErrors submitFailed])
         | Inr its \<Rightarrow>
             (case createOrderApi (submission formData s its) of
                Thrown e \<Rightarrow>
                  (s, [SetErrors [], Submitted (submission formData s its), ToastError,
                       SetErrors submitFailed])
              | Returned response \<Rightarrow>
                  (case data response of
                     Some d \<Rightarrow>
                       if success response
                       then (clearCart s,
                             [SetErrors [], Submitted (submission formData s its),
                              ToastSuccess, CartCleared,
                              RedirectToConfirmation (confirmationId d)])
                       else (s, [SetErrors [], Submitted (submission formData s its),
                                 ToastError, SetErrors submitFailed])
                   | None \<Rightarrow>
                       (s, [SetErrors [], Submitted (submission formData s its),
                            ToastError, SetErrors submitFailed])))))"

text \<open>A confirmed success: a response that says success and carries the order.\<close>

fun confirmedSuccess :: "api_outcome \<Rightarrow> bool" where
  "confirmedSuccess (Returned response) = (success response \<and> data response \<noteq> None)"
| "confirmedSuccess (Thrown e) = False"

section \<open>The order model (\<^verbatim>\<open>models/Order.js\<close>)\<close>

text \<open>The object \<^verbatim>\<open>orderData\<close> the controller builds, and the stored order: the same fields
  and the ones the schema adds.\<close>

record order_data =
  od_customer :: customer_doc
  od_items :: "order_item list"
  od_totalPrice :: number
  od_shippingAddress :: string
  od_notes :: string

record order = order_data +
  orderId :: string
  status :: order_status
  paymentStatus :: payment_status
  createdAt :: nat
  updatedAt :: nat

text \<open>\<^verbatim>\<open>toLowerCase()\<close> on an 8-bit character, and the decimal digits of a timestamp.\<close>

definition lower_char :: "char \<Rightarrow> char" where
  "lower_char c =
     (let n = (of_char c :: nat) in
      if (65 \<le> n \<and> n \<le> 90) \<or> (192 \<le> n \<and> n \<le> 214) \<or> (216 \<le> n \<and> n \<le> 222)
      then char_of (n + 32) else c)"

function decimal :: "nat \<Rightarrow> string" where
  "decimal n =
     (if n < 10 then [''0123456789'' ! n]
      else decimal (n div 10) @ [''0123456789'' ! (n mod 10)])"
  by pat_completeness auto
termination
  by (relation "measure (\<lambda>n. n)") auto

declare decimal.simps [simp del]

text \<open>The setters of the schema, applied when the document is built: \<^verbatim>\<open>trim\<close> on the
  strings, \<^verbatim>\<open>lowercase\<close> on the e-mail address.\<close>

definition castCustomer :: "customer_doc \<Rightarrow> customer_doc" where
  "castCustomer c =
     \<lparr>c_name = trim (c_name c), c_organization = trim (c_organization c),
      c_phone = trim (c_phone c), c_email = map lower_char (trim (c_email c)),
      c_address = trim (c_address c)\<rparr>"

definition castOrder :: "order_data \<Rightarrow> order_data" where
  "castOrder d =
     d\<lparr>od_customer := castCustomer (od_customer d),
       od_shippingAddress := trim (od_shippingAddress d),
       od_notes := trim (od_notes d)\<rparr>"

text \<open>The validators of the schema, each giving the paths it rejects: \<^verbatim>\<open>required\<close> on a
  string rejects the empty one. The reference of an item to its book is taken to be a
  well-formed object identifier: \<^verbatim>\<open>findById\<close> has resolved it.\<close>

definition customerErrors :: "customer_doc \<Rightarrow> string list" where
  "customerErrors c =
     (if c_name c = [] \<or> 100 < length (c_name c) then [''customer.name''] else []) @
     (if 100 < length (c_organization c) then [''customer.organization''] else []) @
     (if c_phone c = [] \<or> \<not> regex_test PHONE_REGEX (c_phone c)
      then [''customer.phone''] else []) @
     (if c_email c = [] \<or> \<not> regex_test EMAIL_REGEX (c_email c)
      then [''customer.email''] else []) @
     (if c_address c = [] \<or> 500 < length (c_address c) then [''customer.address''] else [])"

definition itemErrors :: "nat \<Rightarrow> order_item \<Rightarrow> string list" where
  "itemErrors i it =
     (if item_quantity it < 1 then [''items.'' @ decimal i @ ''.quantity''] else []) @
     (if item_price it < 0 then [''items.'' @ decimal i @ ''.price''] else []) @
     (if item_title it = [] then [''items.'' @ decimal i @ ''.title''] else []) @
     (if item_publisher it = [] then [''items.'' @ decimal i @ ''.publisher''] else []) @
     (if item_image it = [] then [''items.'' @ decimal i @ ''.image''] else [])"

definition schemaErrors :: "order_data \<Rightarrow> string list" where
  "schemaErrors d =
     customerErrors (od_customer d) @
     (if od_items d = [] then [''items''] else []) @
     concat (map (\<lambda>(i, it). itemErrors i it) (enumerate 0 (od_items d))) @
     (if od_totalPrice d < 0 then [''totalPrice''] else []) @
     (if od_shippingAddress d = [] then [''shippingAddress''] else []) @
     (if 1000 < length (od_notes d) then [''notes''] else [])"

text \<open>The pre-save hook: \<^verbatim>\<open>ORD-\<close>, the clock in milliseconds, a dash and the random
  suffix (\<^verbatim>\<open>Math.random().toString(36).substr(2, 9).toUpperCase()\<close>).\<close>

definition generateOrderId :: "nat \<Rightarrow> string \<Rightarrow> string" where
  "generateOrderId clock suffix = ''ORD-'' @ decimal clock @ ''-'' @ suffix"

datatype save_error = ValidationError "string list" | DuplicateKey

text \<open>\<^verbatim>\<open>new Order(orderData)\<close> and \<^verbatim>\<open>order.save()\<close>: the setters and defaults, the
  validation, the pre-save hooks, then the insertion, which the unique index on \<^verbatim>\<open>orderId\<close>
  refuses for an identifier already stored.\<close>

definition save :: "nat \<Rightarrow> string \<Rightarrow> nat \<Rightarrow> order list \<Rightarrow> order_data \<Rightarrow> save_error + order" where
  "save clock suffix date db orderData =
     (let d = castOrder orderData in
      if schemaErrors d \<noteq> [] then Inl (ValidationError (schemaErrors d))
      else
        (let oid = generateOrderId clock suffix in
         if oid \<in> set (map orderId db) then Inl DuplicateKey
         else Inr \<lparr>od_customer = od_customer d, od_items = od_items d,
                   od_totalPrice = od_totalPrice d,
                   od_shippingAddress = od_shippingAddress d, od_notes = od_notes d,
                   orderId = oid, status = Pending, paymentStatus = PaymentPending,
                   createdAt = date, updatedAt = date\<rparr>))"

section \<open>The order controller (\<^verbatim>\<open>controllers/orderController.js\<close>)\<close>

datatype payload =
    ValidationFailed "string list"
  | InvalidOrderItems
  | InvalidTotalPrice
  | InvalidItemData
  | BookNotFound string
  | TotalPriceMismatch number number
  | ValidationErrorDetails "string list"
  | DuplicateOrder
  | FailedToCreateOrder
  | OrderCreated created_data

record response =
  http_status :: nat
  body :: payload

datatype recipient = Owner | Customer

datatype mail_event = MailSent recipient | MailFailed recipient

text \<open>
  What the controller gets from outside: the errors the validators of the route found in
  the request (\<^verbatim>\<open>validationResult(req)\<close>), the catalog (\<^verbatim>\<open>Book.findById\<close>), the clock and
  the random suffix of the pre-save hook, the date of the document, and whether the mail
  transport delivers each of the two messages.
\<close>

record env =
  validationErrors :: "string list"
  catalog :: "string \<Rightarrow> book option"
  clock :: nat
  randomSuffix :: string
  docDate :: nat
  ownerMailOk :: bool
  customerMailOk :: bool

text \<open>The loop over the requested items: it returns the response of the first item that is
  refused, or the processed items and the calculated total.\<close>

fun processItems ::
  "(string \<Rightarrow> book option) \<Rightarrow> item_req list \<Rightarrow> order_item list \<Rightarrow> number
     \<Rightarrow> response + (order_item list \<times> number)" where
  "processItems cat [] processedItems calculatedTotal =
     Inr (processedItems, calculatedTotal)"
| "processItems cat (item # rest) processedItems calculatedTotal =
     (case (bookId item, reqQuantity item) of
        (Some bid, Some q) \<Rightarrow>
          if bid = [] \<or> q = 0 \<or> q \<le> 0
          then Inl \<lparr>http_status = 400, body = InvalidItemData\<rparr>
          else
            (case cat bid of
               None \<Rightarrow> Inl \<lparr>http_status = 404, body = BookNotFound bid\<rparr>
             | Some b \<Rightarrow>
                 processItems cat rest
                   (processedItems @
                      [\<lparr>item_book = bid, item_quantity = q, item_price = price b,
                        item_title = title b, item_publisher = publisher b,
                        item_image = image_url b\<rparr>])
                   (calculatedTotal + price b * q))
      | _ \<Rightarrow> Inl \<lparr>http_status = 400, body = InvalidItemData\<rparr>)"

text \<open>The two notifications, in one \<^verbatim>\<open>try\<close> block: the first failure ends the block.\<close>

definition sendEmails :: "env \<Rightarrow> mail_event list" where
  "sendEmails e =
     (if \<not> ownerMailOk e then [MailFailed Owner]
      else if \<not> customerMailOk e then [MailSent Owner, MailFailed Customer]
      else [MailSent Owner, MailSent Customer])"

text \<open>The object \<^verbatim>\<open>orderData\<close>: the customer fields (\<^verbatim>\<open>organization || ''\<close>), the
  processed items, the calculated total, the address and \<^verbatim>\<open>notes || ''\<close>.\<close>

definition customerDoc :: "checkoutFormData \<Rightarrow> customer_doc" where
  "customerDoc c =
     \<lparr>c_name = name c,
      c_organization = (if truthy (organization c) then the (organization c) else []),
      c_phone = phone c, c_email = email c, c_address = address c\<rparr>"

definition notesOf :: "order_request \<Rightarrow> string" where
  "notesOf req = (if truthy (req_notes req) then the (req_notes req) else [])"

definition orderData :: "order_request \<Rightarrow> order_item list \<Rightarrow> number \<Rightarrow> order_data" where
  "orderData req processedItems calculatedTotal =
     \<lparr>od_customer = customerDoc (customer req),
      od_items = processedItems,
      od_totalPrice = calculatedTotal,
      od_shippingAddress = address (customer req),
      od_notes = notesOf req\<rparr>"

text \<open>The data of the success response.\<close>

definition createdData :: "order \<Rightarrow> created_data" where
  "createdData ord =
     \<lparr>data_id = orderId ord, data_orderId = orderId ord,
      data_customer = od_customer ord, data_items = od_items ord,
      data_totalPrice = od_totalPrice ord, data_status = status ord,
      data_orderDate = createdAt ord\<rparr>"

text \<open>From the creation of the order object to the response: the order is saved, the
  notifications are attempted, and the response is the created order whatever they did.
  An error of \<^verbatim>\<open>save\<close> is answered by the \<^verbatim>\<open>catch\<close> block.\<close>

definition persistOrder ::
  "env \<Rightarrow> order list \<Rightarrow> order_request \<Rightarrow> order_item list \<Rightarrow> number
     \<Rightarrow> response \<times> order list \<times> mail_event list" where
  "persistOrder e db req processedItems calculatedTotal =
     (case save (clock e) (randomSuffix e) (docDate e) db
             (orderData req processedItems calculatedTotal) of
        Inl (ValidationError details) \<Rightarrow>
          (\<lparr>http_status = 400, body = ValidationErrorDetails details\<rparr>, db, [])
      | Inl DuplicateKey \<Rightarrow> (\<lparr>http_status = 409, body = DuplicateOrder\<rparr>, db, [])
      | Inr ord \<Rightarrow>
          (\<lparr>http_status = 201, body = OrderCreated (createdData ord)\<rparr>,
           db @ [ord], sendEmails e))"

text \<open>\<^verbatim>\<open>createOrder\<close>: the response, the orders stored afterwards and the mail events.
  An absent \<^verbatim>\<open>items\<close> makes \<^verbatim>\<open>items.length\<close> throw in the first log call, which the
  \<^verbatim>\<open>catch\<close> block answers with status 500.\<close>

definition createOrder ::
  "env \<Rightarrow> order list \<Rightarrow> order_request \<Rightarrow> response \<times> order list \<times> mail_event list" where
  "createOrder e db req =
     (if validationErrors e \<noteq> []
      then (\<lparr>http_status = 400, body = ValidationFailed (validationErrors e)\<rparr>, db, [])
      else
        (case req_items req of
           ItemsAbsent \<Rightarrow> (\<lparr>http_status = 500, body = FailedToCreateOrder\<rparr>, db, [])
         | ItemsNotArray \<Rightarrow> (\<lparr>http_status = 400, body = InvalidOrderItems\<rparr>, db, [])
         | ItemsArray its \<Rightarrow>
             if its = [] then (\<lparr>http_status = 400, body = InvalidOrderItems\<rparr>, db, [])
             else
               (case req_totalPrice req of
                  None \<Rightarrow> (\<lparr>http_status = 400, body = InvalidTotalPrice\<rparr>, db, [])
                | Some totalPrice' \<Rightarrow>
                    if totalPrice' = 0 \<or> totalPrice' \<le> 0
                    then (\<lparr>http_status = 400, body = InvalidTotalPrice\<rparr>, db, [])
                    else
                      (case processItems (catalog e) its [] 0 of
                         Inl resp \<Rightarrow> (resp, db, [])
                       | Inr (processedItems, calculatedTotal) \<Rightarrow>
                           if \<bar>calculatedTotal - totalPrice'\<bar> > 0.01
                           then (\<lparr>http_status = 400,
                                  body = TotalPriceMismatch calculatedTotal totalPrice'\<rparr>,
                                 db, [])
                           else persistOrder e db req processedItems calculatedTotal))))"

section \<open>The words of the specification about requests\<close>

text \<open>A requested item resolves when it has an identifier, a quantity above zero, and the
  catalog has a book for the identifier.\<close>

definition resolves :: "(string \<Rightarrow> book option) \<Rightarrow> item_req \<Rightarrow> bool" where
  "resolves cat item \<longleftrightarrow>
     (case (bookId item, reqQuantity item) of
        (Some bid, Some q) \<Rightarrow> bid \<noteq> [] \<and> 0 < q \<and> cat bid \<noteq> None
      | _ \<Rightarrow> False)"

text \<open>The snapshot of a resolving item, from the catalog, and the server's total: the sum
  over the items of catalog price times quantity.\<close>

definition snapshot :: "(string \<Rightarrow> book option) \<Rightarrow> item_req \<Rightarrow> order_item" where
  "snapshot cat item =
     (let bid = the (bookId item); b = the (cat bid) in
      \<lparr>item_book = bid, item_quantity = the (reqQuantity item), item_price = price b,
       item_title = title b, item_publisher = publisher b, item_image = image_url b\<rparr>)"

definition serverTotal :: "(string \<Rightarrow> book option) \<Rightarrow> item_req list \<Rightarrow> number" where
  "serverTotal cat its =
     sum_list (map (\<lambda>item. price (the (cat (the (bookId item)))) * the (reqQuantity item)) its)"


section \<open>Sample values\<close>

text \<open>A catalog book, a customer and an environment, for closed instances of the theorems
  below.\<close>

definition sampleId :: string where
  "sampleId = ''64b7f0c2a1d3e4f5a6b7c8d9''"

definition sampleBook :: book where
  "sampleBook =
     \<lparr>id_mongo = Some sampleId, id_compat = None,
      title = ''Algebra'', publisher = ''Acme'', price = 12.99,
      image_url = ''https://img.example/algebra.png''\<rparr>"

definition sampleForm :: checkoutFormData where
  "sampleForm =
     \<lparr>name = ''Ada Lovelace'', organization = None, phone = ''+1-555-123-4567'',
      email = ''Ada@Example.com'', address = ''12 Analytical Row, London'',
      form_notes = None\<rparr>"

definition sampleEnv :: env where
  "sampleEnv =
     \<lparr>validationErrors = [],
      catalog = (\<lambda>i. if i = sampleId then Some sampleBook else None),
      clock = 1700000000000, randomSuffix = ''K3J9X0QZA'', docDate = 1700000000000,
      ownerMailOk = True, customerMailOk = True\<rparr>"

definition sampleRequest :: "number \<Rightarrow> order_request" where
  "sampleRequest claimed =
     \<lparr>customer = sampleForm,
      req_items = ItemsArray [\<lparr>bookId = Some sampleId, reqQuantity = Some 2\<rparr>],
      req_totalPrice = Some claimed, req_notes = Some []\<rparr>"



text \<open>A cart with two copies of the sample book, and three behaviours of the order API:
  a network error, a rejection and a success.\<close>

definition sampleCart :: cart where
  "sampleCart = addToCart sampleBook 2 initialCart"

definition networkError :: "order_request \<Rightarrow> api_outcome" where
  "networkError req = Thrown ''Failed to fetch''"

definition rejection :: "order_request \<Rightarrow> api_outcome" where
  "rejection req =
     Returned \<lparr>success = False, data = None, error = Some ''Total price mismatch''\<rparr>"

definition acceptance :: "order_request \<Rightarrow> api_outcome" where
  "acceptance req =
     Returned
       \<lparr>success = True,
        data = Some \<lparr>data_id = ''ORD-1700000000000-K3J9X0QZA'',
                     data_orderId = ''ORD-1700000000000-K3J9X0QZA'',
                     data_customer = castCustomer (customerDoc (customer req)),
                     data_items = [], data_totalPrice = 25.98, data_status = Pending,
                     data_orderDate = 1700000000000\<rparr>,
        error = None\<rparr>"

section \<open>The cart store: derived totals\<close>

lemma foldl_plus_sum_list:
  fixes f :: "'a \<Rightarrow> real"
  shows "foldl (\<lambda>sum x. sum + f x) a xs = a + sum_list (map f xs)"
  by (induction xs arbitrary: a) simp_all

lemma calculateTotals_sums:
  "calculateTotals its =
     (sum_list (map quantity its),
      sum_list (map (\<lambda>item. quantity item * price (book item)) its))"
  by (simp add: calculateTotals_def foldl_plus_sum_list mult.commute)

lemma totalsOk_setItems: "totalsOk (setItems its)"
  by (simp add: setItems_def calculateTotals_sums totalsOk_def)

lemma items_setItems: "items (setItems its) = its"
  by (simp add: setItems_def split: prod.splits)

lemma totalsOk_initialCart: "totalsOk initialCart"
  by (simp add: totalsOk_def initialCart_def)

lemma totalsOk_clearCart: "totalsOk (clearCart s)"
  by (simp add: totalsOk_def clearCart_def)

lemma totalsOk_addToCart: "totalsOk s \<Longrightarrow> totalsOk (addToCart b q s)"
  by (simp add: addToCart_def Let_def totalsOk_setItems split: option.splits)

lemma totalsOk_removeFromCart: "totalsOk s \<Longrightarrow> totalsOk (removeFromCart i s)"
  by (simp add: removeFromCart_def totalsOk_setItems split: option.splits)

lemma totalsOk_updateQuantity: "totalsOk s \<Longrightarrow> totalsOk (updateQuantity i q s)"
  by (simp add: updateQuantity_def totalsOk_removeFromCart totalsOk_setItems)

lemma totalsOk_applyOp: "totalsOk s \<Longrightarrow> totalsOk (applyOp op s)"
  by (cases op)
     (simp_all add: totalsOk_addToCart totalsOk_removeFromCart totalsOk_updateQuantity
        totalsOk_clearCart)

lemma totalsOk_runOps: "totalsOk s \<Longrightarrow> totalsOk (runOps ops s)"
  unfolding runOps_def
  by (induction ops arbitrary: s) (simp_all add: totalsOk_applyOp)

text \<open>From any state, an operation either leaves the cart as it is (a book with no
  identifier, an identifier that is not in the cart) or writes totals that are the sums.\<close>

lemma applyOp_unchanged_or_totalsOk: "applyOp op s = s \<or> totalsOk (applyOp op s)"
  by (cases op)
     (simp_all add: addToCart_def removeFromCart_def updateQuantity_def Let_def
        totalsOk_setItems totalsOk_clearCart split: option.splits)


section \<open>The cart store: adding a book twice\<close>

lemma find_None_iff_all: "find P xs = None \<longleftrightarrow> (\<forall>x\<in>set xs. \<not> P x)"
  by (induction xs) simp_all

lemma addToCart_absent:
  assumes "truthy (bookKey b)" and "\<forall>item\<in>set (items s). bookKey (book item) \<noteq> bookKey b"
  shows "items (addToCart b q s) = items s @ [\<lparr>book = b, quantity = q\<rparr>]"
proof -
  have "find (\<lambda>item. bookKey (book item) = bookKey b) (items s) = None"
    using assms(2) by (simp add: find_None_iff_all)
  with assms(1) show ?thesis
    by (simp add: addToCart_def items_setItems)
qed

lemma addToCart_present:
  assumes "truthy (bookKey b)" and "\<exists>item\<in>set (items s). bookKey (book item) = bookKey b"
  shows "items (addToCart b q s) =
           map (\<lambda>item. if bookKey (book item) = bookKey b
                        then item\<lparr>quantity := quantity item + q\<rparr> else item) (items s)"
proof -
  have "find (\<lambda>item. bookKey (book item) = bookKey b) (items s) \<noteq> None"
    using assms(2) by (simp add: find_None_iff_all)
  with assms(1) show ?thesis
    by (auto simp: addToCart_def items_setItems)
qed

text \<open>
  Claim C6. For a book with an identifier and a cart with no entry for that identifier,
  \<^verbatim>\<open>addToCart\<close> with quantity \<open>a\<close> and then with the same book and quantity \<open>b\<close> leaves
  the earlier entries as they were and appends one entry for the book, of quantity
  \<open>a + b\<close>: it is the only entry of the cart with the book's identifier.
\<close>

theorem addToCart_twice_merges:
  assumes "truthy (bookKey bk)"
    and "\<forall>item\<in>set (items s). bookKey (book item) \<noteq> bookKey bk"
  shows "items (addToCart bk b (addToCart bk a s)) = items s @ [\<lparr>book = bk, quantity = a + b\<rparr>]
       \<and> filter (\<lambda>item. bookKey (book item) = bookKey bk)
            (items (addToCart bk b (addToCart bk a s))) = [\<lparr>book = bk, quantity = a + b\<rparr>]"
proof -
  let ?s1 = "addToCart bk a s"
  have s1: "items ?s1 = items s @ [\<lparr>book = bk, quantity = a\<rparr>]"
    using assms by (rule addToCart_absent)
  then have "\<exists>item\<in>set (items ?s1). bookKey (book item) = bookKey bk"
    by simp
  with assms(1) have "items (addToCart bk b ?s1) =
      map (\<lambda>item. if bookKey (book item) = bookKey bk
                   then item\<lparr>quantity := quantity item + b\<rparr> else item) (items ?s1)"
    by (rule addToCart_present)
  also have "\<dots> = items s @ [\<lparr>book = bk, quantity = a + b\<rparr>]"
    using assms(2) by (simp add: s1 map_idI)
  finally have eq: "items (addToCart bk b ?s1) = items s @ [\<lparr>book = bk, quantity = a + b\<rparr>]" .
  have "filter (\<lambda>item. bookKey (book item) = bookKey bk) (items s) = []"
    using assms(2) by (simp add: filter_empty_conv)
  with eq show ?thesis by simp
qed

theorem addToCart_twice_merges_witness:
  "truthy (bookKey sampleBook)
   \<and> list_all (\<lambda>item. bookKey (book item) \<noteq> bookKey sampleBook) (items initialCart)
   \<and> items (addToCart sampleBook 3 (addToCart sampleBook 2 initialCart))
       = [\<lparr>book = sampleBook, quantity = 5\<rparr>]"
proof -
  have h1: "truthy (bookKey sampleBook)" by (simp add: sampleBook_def sampleId_def bookKey_def)
  have h2: "\<forall>item\<in>set (items initialCart). bookKey (book item) \<noteq> bookKey sampleBook"
    by (simp add: initialCart_def)
  show ?thesis
    using addToCart_twice_merges [OF h1 h2, where a = 2 and b = 3] h1
    by (simp add: initialCart_def)
qed

section \<open>The cart store: rehydration\<close>

lemma map_filter_validItem_toStored:
  "List.map_filter validItem (map toStored (filter (\<lambda>item. truthy (bookKey (book item))) its))
     = filter (\<lambda>item. truthy (bookKey (book item))) its"
  by (induction its) (simp_all add: List.map_filter_def validItem_def toStored_def)

text \<open>The entries without a book or without an identifier are dropped, whatever is
  stored, and the totals are the sums whenever an entry was dropped.\<close>

lemma items_rehydrate:
  "items (rehydrate cur (Some blob)) = List.map_filter validItem blob"
  by (simp add: rehydrate_def cleanupCart_def Let_def items_setItems)

lemma rehydrate_dropped_totalsOk:
  "length (List.map_filter validItem blob) \<noteq> length blob \<Longrightarrow>
     totalsOk (rehydrate cur (Some blob))"
  by (simp add: rehydrate_def cleanupCart_def Let_def totalsOk_setItems)

text \<open>What \<^verbatim>\<open>partialize\<close> wrote comes back with the items and with the totals of the
  new store, which are zero.\<close>

lemma rehydrate_partialize:
  "rehydrate initialCart (Some (partialize s)) =
     \<lparr>items = filter (\<lambda>item. truthy (bookKey (book item))) (items s),
      totalItems = 0, totalPrice = 0\<rparr>"
  using map_filter_validItem_toStored [of "items s"]
  by (simp add: rehydrate_def cleanupCart_def partialize_def initialCart_def Let_def)

text \<open>
  Claim C4, at a stored cart whose only entry is valid (two copies of the sample book):
  nothing is dropped, so \<^verbatim>\<open>cleanupCart\<close> does not recompute, and the rehydrated cart has
  the entry with \<^verbatim>\<open>totalItems\<close> and \<^verbatim>\<open>totalPrice\<close> zero instead of 2 and 25.98.
\<close>

theorem rehydrate_keeps_stale_totals:
  "rehydrate initialCart (Some [\<lparr>stored_book = Some sampleBook, stored_quantity = 2\<rparr>])
     = \<lparr>items = [\<lparr>book = sampleBook, quantity = 2\<rparr>], totalItems = 0, totalPrice = 0\<rparr>
   \<and> \<not> totalsOk
         (rehydrate initialCart (Some [\<lparr>stored_book = Some sampleBook, stored_quantity = 2\<rparr>]))"
  by (simp add: rehydrate_def cleanupCart_def List.map_filter_def validItem_def sampleBook_def
      sampleId_def bookKey_def initialCart_def totalsOk_def)

section \<open>The phone pattern\<close>

lemma space_not_digit: "is_space c \<Longrightarrow> \<not> is_digit c"
  by (auto simp: is_space_def is_digit_def)

lemma digits_Cons: "digits (c # cs) = (if is_digit c then 1 else 0) + digits cs"
  by (simp add: digits_def)

lemma digits_append: "digits (p @ q) = digits p + digits q"
  by (simp add: digits_def)

lemma digits_rev: "digits (rev s) = digits s"
  by (simp add: digits_def flip: rev_filter)

lemma digits_dropWhile_space: "digits (dropWhile is_space s) = digits s"
  by (induction s) (simp_all add: digits_Cons space_not_digit digits_def)

lemma digits_trim: "digits (trim s) = digits s"
  by (simp add: trim_def digits_rev digits_dropWhile_space)

lemma in_cls_digit_bounds:
  "in_cls k c \<Longrightarrow> cls_min k \<le> digits [c] \<and> digits [c] \<le> cls_max k"
  by (cases k) (auto simp: digits_def is_digit_def is_space_def)

lemma remainders_digits:
  "plus_free r \<Longrightarrow> t \<in> set (remainders r s) \<Longrightarrow>
     \<exists>p. s = p @ t \<and> dmin r \<le> digits p \<and> digits p \<le> dmax r"
proof (induction r arbitrary: s t)
  case Eps
  then show ?case by (simp add: digits_def)
next
  case (Chr k)
  then show ?case
    by (cases s) (auto split: if_splits dest: in_cls_digit_bounds)
next
  case (Many1 k)
  then show ?case by simp
next
  case (Cat r1 r2)
  then obtain u where u: "u \<in> set (remainders r1 s)" and t: "t \<in> set (remainders r2 u)"
    by auto
  from Cat.prems have pf: "plus_free r1" "plus_free r2" by simp_all
  from Cat.IH(1) [OF pf(1) u] obtain p
    where p: "s = p @ u" "dmin r1 \<le> digits p" "digits p \<le> dmax r1" by blast
  from Cat.IH(2) [OF pf(2) t] obtain q
    where q: "u = q @ t" "dmin r2 \<le> digits q" "digits q \<le> dmax r2" by blast
  from p q have "s = (p @ q) @ t" "dmin (Cat r1 r2) \<le> digits (p @ q)"
    "digits (p @ q) \<le> dmax (Cat r1 r2)"
    by (simp_all add: digits_append)
  then show ?case by blast
next
  case (Opt r)
  then have "t \<in> set (remainders r s) \<or> t = s" by auto
  then show ?case
  proof
    assume "t \<in> set (remainders r s)"
    from Opt.IH [OF _ this] Opt.prems(1) show ?thesis by auto
  next
    assume "t = s"
    then have "s = [] @ t" "dmin (Opt r) \<le> digits []" "digits [] \<le> dmax (Opt r)"
      by (simp_all add: digits_def)
    then show ?thesis by blast
  qed
qed

lemma regex_test_digits:
  assumes "plus_free r" and "regex_test r s"
  shows "dmin r \<le> digits s \<and> digits s \<le> dmax r"
proof -
  from assms(2) have "[] \<in> set (remainders r s)" by (simp add: regex_test_def)
  from remainders_digits [OF assms(1) this] show ?thesis by auto
qed

lemma PHONE_REGEX_bounds:
  "plus_free PHONE_REGEX" "dmin PHONE_REGEX = 7" "dmax PHONE_REGEX = 22"
  by (simp_all add: PHONE_REGEX_def cats_def eval_nat_numeral is_digit_def)

text \<open>
  Claim C9, with the bound the pattern has. A value the phone validator of the checkout
  page accepts has at least 7 and at most 22 digits: up to three of a country code, three
  of an area code, six to fifteen of the repeated group and a last one. The value
  \<^verbatim>\<open>+1-555-123-4567\<close> is accepted and \<^verbatim>\<open>abc\<close> is not.
\<close>

theorem phone_digit_bounds:
  "(validateField Phone v = [] \<longrightarrow> 7 \<le> digits v \<and> digits v \<le> 22)
   \<and> validateField Phone ''+1-555-123-4567'' = []
   \<and> validateField Phone ''abc'' \<noteq> []"
proof (intro conjI impI)
  assume ok: "validateField Phone v = []"
  then have "regex_test PHONE_REGEX (trim v)"
    by (simp split: if_splits)
  then have "dmin PHONE_REGEX \<le> digits (trim v) \<and> digits (trim v) \<le> dmax PHONE_REGEX"
    by (rule regex_test_digits [OF PHONE_REGEX_bounds(1)])
  then show "7 \<le> digits v" "digits v \<le> 22"
    by (simp_all add: PHONE_REGEX_bounds digits_trim)
next
  show "validateField Phone ''+1-555-123-4567'' = []" by code_simp
next
  show "validateField Phone ''abc'' \<noteq> []" by code_simp
qed

theorem phone_digit_bounds_witness:
  "validateField Phone '' +91 (987) 654-3210 '' = []
   \<and> 7 \<le> digits '' +91 (987) 654-3210 '' \<and> digits '' +91 (987) 654-3210 '' \<le> 22"
proof -
  have h: "validateField Phone '' +91 (987) 654-3210 '' = []" by code_simp
  from phone_digit_bounds [of "'' +91 (987) 654-3210 ''"] h show ?thesis by blast
qed

text \<open>The customer schema of the server tests the same pattern on the trimmed value, so
  a phone number it accepts has the same bounds.\<close>

lemma schema_phone_digit_bounds:
  assumes "customerErrors (castCustomer c) = []"
  shows "7 \<le> digits (c_phone c) \<and> digits (c_phone c) \<le> 22"
proof -
  from assms have "regex_test PHONE_REGEX (trim (c_phone c))"
    by (auto simp: customerErrors_def castCustomer_def split: if_splits)
  from regex_test_digits [OF PHONE_REGEX_bounds(1) this]
  show ?thesis by (simp add: PHONE_REGEX_bounds digits_trim)
qed

text \<open>A value of seventeen digits is accepted: the bound of sixteen does not hold.\<close>

theorem phone_seventeen_digits_accepted:
  "validateField Phone ''12345678901234567'' = [] \<and> digits ''12345678901234567'' = 17"
  by code_simp

text \<open>The bound of twenty-two is reached.\<close>

lemma phone_twenty_two_digits_accepted:
  "validateField Phone ''+123 (456) 789012345678901-2'' = []
   \<and> digits ''+123 (456) 789012345678901-2'' = 22"
  by code_simp

section \<open>The order controller: the item loop and the save\<close>

lemma processItems_resolves:
  "list_all (resolves cat) its \<Longrightarrow>
     processItems cat its acc tot = Inr (acc @ map (snapshot cat) its, tot + serverTotal cat its)"
proof (induction its arbitrary: acc tot)
  case Nil
  then show ?case by (simp add: serverTotal_def)
next
  case (Cons item rest)
  from Cons.prems obtain bid q b where
    item: "bookId item = Some bid" "reqQuantity item = Some q" "bid \<noteq> []" "0 < q"
      "cat bid = Some b"
    by (auto simp: resolves_def split: option.splits)
  from Cons.prems have rest: "list_all (resolves cat) rest" by simp
  show ?case
    using item Cons.IH [OF rest]
    by (simp add: snapshot_def serverTotal_def)
qed

lemma processItems_rejects:
  "\<not> list_all (resolves cat) its \<Longrightarrow>
     \<exists>resp. processItems cat its acc tot = Inl resp \<and>
       ((http_status resp = 400 \<and> body resp = InvalidItemData) \<or>
        (http_status resp = 404 \<and> (\<exists>bid. body resp = BookNotFound bid)))"
proof (induction its arbitrary: acc tot)
  case Nil
  then show ?case by simp
next
  case (Cons item rest)
  show ?case
  proof (cases "resolves cat item")
    case True
    with Cons.prems have "\<not> list_all (resolves cat) rest" by simp
    from Cons.IH [OF this] True show ?thesis
      by (auto simp: resolves_def split: option.splits)
  next
    case False
    then show ?thesis
      by (auto simp: resolves_def split: option.splits)
  qed
qed


lemma save_Inr:
  "save c sfx dt db d = Inr ord \<Longrightarrow>
     od_items ord = od_items d \<and> od_totalPrice ord = od_totalPrice d \<and>
     orderId ord = generateOrderId c sfx \<and> status ord = Pending \<and>
     paymentStatus ord = PaymentPending \<and> createdAt ord = dt \<and>
     orderId ord \<notin> set (map orderId db) \<and> schemaErrors (castOrder d) = []"
  by (auto simp: save_def Let_def castOrder_def split: if_splits)

lemma persistOrder_cases:
  "persistOrder e db req pis calc = (resp, db', ms) \<Longrightarrow>
     (\<exists>ord. save (clock e) (randomSuffix e) (docDate e) db (orderData req pis calc) = Inr ord \<and>
        resp = \<lparr>http_status = 201, body = OrderCreated (createdData ord)\<rparr> \<and>
        db' = db @ [ord] \<and> ms = sendEmails e)
     \<or> ((\<exists>details. resp = \<lparr>http_status = 400, body = ValidationErrorDetails details\<rparr>) \<and> db' = db \<and> ms = [])
     \<or> (resp = \<lparr>http_status = 409, body = DuplicateOrder\<rparr> \<and> db' = db \<and> ms = [])"
  by (auto simp: persistOrder_def split: sum.splits save_error.splits)


section \<open>The order controller: rejections\<close>

lemma processItems_Inl_status:
  "processItems cat its acc tot = Inl resp \<Longrightarrow> http_status resp = 400 \<or> http_status resp = 404"
proof (cases "list_all (resolves cat) its")
  case True
  assume "processItems cat its acc tot = Inl resp"
  with processItems_resolves [OF True, of acc tot] show ?thesis by simp
next
  case False
  assume "processItems cat its acc tot = Inl resp"
  with processItems_rejects [OF False, of acc tot] show ?thesis by auto
qed

text \<open>A request that passed the validators of the route, with a non-empty item list
  whose items all resolve and a claimed total above zero, reaches the comparison of the
  totals, and the calculated total is the sum of catalog price times quantity.\<close>

lemma createOrder_reaches_check:
  assumes "validationErrors e = []" and "req_items req = ItemsArray its" and "its \<noteq> []"
    and "list_all (resolves (catalog e)) its" and "req_totalPrice req = Some t" and "0 < t"
  shows "createOrder e db req =
           (if 0.01 < \<bar>serverTotal (catalog e) its - t\<bar>
            then (\<lparr>http_status = 400,
                   body = TotalPriceMismatch (serverTotal (catalog e) its) t\<rparr>, db, [])
            else persistOrder e db req (map (snapshot (catalog e)) its)
                   (serverTotal (catalog e) its))"
  using assms by (simp add: createOrder_def processItems_resolves)





lemma sample_serverTotal:
  "serverTotal (catalog sampleEnv) [\<lparr>bookId = Some sampleId, reqQuantity = Some 2\<rparr>] = 25.98"
  by (simp add: serverTotal_def sampleEnv_def sampleBook_def)





section \<open>The order controller: a created order\<close>

lemma schemaErrors_orderData:
  "schemaErrors (castOrder (orderData req pis calc)) = [] \<longleftrightarrow>
     customerErrors (castCustomer (customerDoc (customer req))) = [] \<and> pis \<noteq> [] \<and>
     concat (map (\<lambda>(i, it). itemErrors i it) (enumerate 0 pis)) = [] \<and>
     0 \<le> calc \<and> trim (address (customer req)) \<noteq> [] \<and> length (trim (notesOf req)) \<le> 1000"
  by (auto simp: schemaErrors_def castOrder_def orderData_def)

lemma customerErrors_address:
  "customerErrors (castCustomer (customerDoc c)) = [] \<Longrightarrow> trim (address c) \<noteq> []"
  by (auto simp: customerErrors_def castCustomer_def customerDoc_def split: if_splits)

lemma single_item_order_created:
  assumes "validationErrors e = []"
    and "catalog e bid = Some bk" and "bid \<noteq> []" and "1 \<le> q" and "0 \<le> price bk"
    and "title bk \<noteq> []" and "publisher bk \<noteq> []" and "image_url bk \<noteq> []"
    and "req_items req = ItemsArray [\<lparr>bookId = Some bid, reqQuantity = Some q\<rparr>]"
    and "req_totalPrice req = Some t" and "0 < t" and "\<bar>price bk * q - t\<bar> \<le> 0.01"
    and "customerErrors (castCustomer (customerDoc (customer req))) = []"
    and "length (trim (notesOf req)) \<le> 1000"
    and "generateOrderId (clock e) (randomSuffix e) \<notin> set (map orderId db)"
  shows "createOrder e db req =
           (\<lparr>http_status = 201,
             body = OrderCreated (createdData
               \<lparr>od_customer = castCustomer (customerDoc (customer req)),
                od_items = [\<lparr>item_book = bid, item_quantity = q, item_price = price bk,
                             item_title = title bk, item_publisher = publisher bk,
                             item_image = image_url bk\<rparr>],
                od_totalPrice = price bk * q,
                od_shippingAddress = trim (address (customer req)),
                od_notes = trim (notesOf req),
                orderId = generateOrderId (clock e) (randomSuffix e), status = Pending,
                paymentStatus = PaymentPending, createdAt = docDate e,
                updatedAt = docDate e\<rparr>)\<rparr>,
            db @ [\<lparr>od_customer = castCustomer (customerDoc (customer req)),
                od_items = [\<lparr>item_book = bid, item_quantity = q, item_price = price bk,
                             item_title = title bk, item_publisher = publisher bk,
                             item_image = image_url bk\<rparr>],
                od_totalPrice = price bk * q,
                od_shippingAddress = trim (address (customer req)),
                od_notes = trim (notesOf req),
                orderId = generateOrderId (clock e) (randomSuffix e), status = Pending,
                paymentStatus = PaymentPending, createdAt = docDate e,
                updatedAt = docDate e\<rparr>],
            sendEmails e)"
proof -
  let ?item = "\<lparr>bookId = Some bid, reqQuantity = Some q\<rparr>"
  let ?line = "\<lparr>item_book = bid, item_quantity = q, item_price = price bk,
                item_title = title bk, item_publisher = publisher bk,
                item_image = image_url bk\<rparr>"
  have res: "list_all (resolves (catalog e)) [?item]"
    using assms(2,3,4) by (simp add: resolves_def)
  have tot: "serverTotal (catalog e) [?item] = price bk * q"
    using assms(2) by (simp add: serverTotal_def)
  have snap: "map (snapshot (catalog e)) [?item] = [?line]"
    using assms(2) by (simp add: snapshot_def)
  have chk: "createOrder e db req = persistOrder e db req [?line] (price bk * q)"
    using createOrder_reaches_check [OF assms(1) assms(9) _ res assms(10) assms(11), of db]
      tot snap assms(12)
    by simp
  have nn: "0 \<le> price bk * q" using assms(4,5) by simp
  have ok: "schemaErrors (castOrder (orderData req [?line] (price bk * q))) = []"
    using assms(4,5,6,7,8,13,14) nn customerErrors_address [OF assms(13)]
    by (simp add: schemaErrors_orderData itemErrors_def)
  show ?thesis
    using chk ok assms(15)
    by (simp add: persistOrder_def save_def Let_def castOrder_def orderData_def)
qed

lemma sample_customer_ok:
  "customerErrors (castCustomer (customerDoc (customer (sampleRequest c)))) = []"
proof -
  have "customerErrors (castCustomer (customerDoc sampleForm)) = []" by code_simp
  then show ?thesis by (simp add: sampleRequest_def)
qed

text \<open>
  Claim C5. A request that passed the validators of the route, with one item of quantity 2
  for an identifier the catalog resolves to a book of price 12.99 (with a title, a
  publisher and an image), a claimed total of 25.98, a customer and notes the schema
  accepts, and a generated identifier not yet stored, succeeds with status 201. The order
  stored and returned has the identifier \<^verbatim>\<open>ORD-\<close>, the clock, a dash and the random suffix;
  the status pending; one line item: the identifier, quantity 2, and the price, title,
  publisher and image of the catalog book; and the total 25.98, which is the sum of
  quantity times price over the lines.
\<close>

theorem valid_order_created:
  assumes "validationErrors e = []"
    and "catalog e bid = Some bk" and "bid \<noteq> []" and "price bk = 12.99"
    and "title bk \<noteq> []" and "publisher bk \<noteq> []" and "image_url bk \<noteq> []"
    and "req_items req = ItemsArray [\<lparr>bookId = Some bid, reqQuantity = Some 2\<rparr>]"
    and "req_totalPrice req = Some 25.98"
    and "customerErrors (castCustomer (customerDoc (customer req))) = []"
    and "length (trim (notesOf req)) \<le> 1000"
    and "generateOrderId (clock e) (randomSuffix e) \<notin> set (map orderId db)"
  shows "\<exists>ord. createOrder e db req =
             (\<lparr>http_status = 201, body = OrderCreated (createdData ord)\<rparr>,
              db @ [ord], sendEmails e)
         \<and> orderId ord = ''ORD-'' @ decimal (clock e) @ ''-'' @ randomSuffix e
         \<and> status ord = Pending \<and> paymentStatus ord = PaymentPending
         \<and> od_items ord =
             [\<lparr>item_book = bid, item_quantity = 2, item_price = 12.99, item_title = title bk,
               item_publisher = publisher bk, item_image = image_url bk\<rparr>]
         \<and> od_totalPrice ord = 25.98
         \<and> od_totalPrice ord = sum_list (map (\<lambda>it. item_quantity it * item_price it) (od_items ord))
         \<and> data_orderId (createdData ord) = orderId ord
         \<and> data_status (createdData ord) = Pending
         \<and> data_items (createdData ord) = od_items ord
         \<and> data_totalPrice (createdData ord) = 25.98"
proof -
  define ord where "ord =
     \<lparr>od_customer = castCustomer (customerDoc (customer req)),
      od_items = [\<lparr>item_book = bid, item_quantity = 2, item_price = price bk,
                   item_title = title bk, item_publisher = publisher bk,
                   item_image = image_url bk\<rparr>],
      od_totalPrice = price bk * 2, od_shippingAddress = trim (address (customer req)),
      od_notes = trim (notesOf req),
      orderId = generateOrderId (clock e) (randomSuffix e), status = Pending,
      paymentStatus = PaymentPending, createdAt = docDate e, updatedAt = docDate e\<rparr>"
  have "createOrder e db req =
          (\<lparr>http_status = 201, body = OrderCreated (createdData ord)\<rparr>, db @ [ord], sendEmails e)"
    unfolding ord_def
    using assms(4)
    by (intro single_item_order_created [OF assms(1,2,3) _ _ assms(5,6,7,8,9) _ _ assms(10,11,12)])
       simp_all
  moreover have "orderId ord = ''ORD-'' @ decimal (clock e) @ ''-'' @ randomSuffix e"
    by (simp add: ord_def generateOrderId_def)
  moreover have "status ord = Pending" "paymentStatus ord = PaymentPending"
    "od_items ord =
       [\<lparr>item_book = bid, item_quantity = 2, item_price = 12.99, item_title = title bk,
         item_publisher = publisher bk, item_image = image_url bk\<rparr>]"
    "od_totalPrice ord = 25.98"
    using assms(4) by (simp_all add: ord_def)
  moreover have "od_totalPrice ord = sum_list (map (\<lambda>it. item_quantity it * item_price it) (od_items ord))"
    by (simp add: ord_def)
  moreover have "data_orderId (createdData ord) = orderId ord"
    "data_status (createdData ord) = Pending" "data_items (createdData ord) = od_items ord"
    "data_totalPrice (createdData ord) = 25.98"
    using assms(4) by (simp_all add: createdData_def ord_def)
  ultimately show ?thesis by blast
qed

theorem valid_order_created_witness:
  "\<exists>ord. createOrder sampleEnv [] (sampleRequest 25.98) =
           (\<lparr>http_status = 201, body = OrderCreated (createdData ord)\<rparr>, [ord],
            [MailSent Owner, MailSent Customer])
       \<and> orderId ord = ''ORD-1700000000000-K3J9X0QZA''
       \<and> status ord = Pending
       \<and> od_items ord =
           [\<lparr>item_book = sampleId, item_quantity = 2, item_price = 12.99,
             item_title = ''Algebra'', item_publisher = ''Acme'',
             item_image = ''https://img.example/algebra.png''\<rparr>]
       \<and> od_totalPrice ord = 25.98"
proof -
  have d: "decimal 1700000000000 = ''1700000000000''" by (simp add: decimal.simps)
  have h1: "validationErrors sampleEnv = []" by (simp add: sampleEnv_def)
  have h2: "catalog sampleEnv sampleId = Some sampleBook" by (simp add: sampleEnv_def)
  have h3: "sampleId \<noteq> []" by (simp add: sampleId_def)
  have h4: "price sampleBook = 12.99" by (simp add: sampleBook_def)
  have h5: "title sampleBook \<noteq> []" "publisher sampleBook \<noteq> []" "image_url sampleBook \<noteq> []"
    by (simp_all add: sampleBook_def)
  have h8: "req_items (sampleRequest 25.98) = ItemsArray [\<lparr>bookId = Some sampleId, reqQuantity = Some 2\<rparr>]"
    by (simp add: sampleRequest_def)
  have h9: "req_totalPrice (sampleRequest 25.98) = Some 25.98" by (simp add: sampleRequest_def)
  have h11: "length (trim (notesOf (sampleRequest 25.98))) \<le> 1000"
    by (simp add: sampleRequest_def notesOf_def trim_def)
  have h12: "generateOrderId (clock sampleEnv) (randomSuffix sampleEnv) \<notin> set (map orderId [])"
    by simp
  from valid_order_created [OF h1 h2 h3 h4 h5 h8 h9 sample_customer_ok h11 h12]
  obtain ord where
    o: "createOrder sampleEnv [] (sampleRequest 25.98) =
          (\<lparr>http_status = 201, body = OrderCreated (createdData ord)\<rparr>, [] @ [ord],
           sendEmails sampleEnv)"
      "orderId ord = ''ORD-'' @ decimal (clock sampleEnv) @ ''-'' @ randomSuffix sampleEnv"
      "status ord = Pending"
      "od_items ord =
         [\<lparr>item_book = sampleId, item_quantity = 2, item_price = 12.99,
           item_title = title sampleBook, item_publisher = publisher sampleBook,
           item_image = image_url sampleBook\<rparr>]"
      "od_totalPrice ord = 25.98"
    by blast
  have m: "sendEmails sampleEnv = [MailSent Owner, MailSent Customer]"
    by (simp add: sendEmails_def sampleEnv_def)
  have i: "orderId ord = ''ORD-1700000000000-K3J9X0QZA''"
    using o(2) by (simp add: sampleEnv_def d)
  show ?thesis
    using o(1,3,4,5) m i by (intro exI [of _ ord]) (simp add: sampleBook_def)
qed

section \<open>The order controller: notifications and the stored total\<close>

lemma createOrder_mail_independent:
  "fst (createOrder (e\<lparr>ownerMailOk := a, customerMailOk := b\<rparr>) db req) = fst (createOrder e db req)
   \<and> fst (snd (createOrder (e\<lparr>ownerMailOk := a, customerMailOk := b\<rparr>) db req))
       = fst (snd (createOrder e db req))"
  by (simp add: createOrder_def persistOrder_def
      split: items_field.splits option.splits sum.splits save_error.splits prod.splits)

lemma persistOrder_mails:
  "snd (snd (persistOrder e db req pis calc)) =
     (if http_status (fst (persistOrder e db req pis calc)) = 201 then sendEmails e else [])"
  by (simp add: persistOrder_def split: sum.splits save_error.splits)

lemma createOrder_mails:
  "snd (snd (createOrder e db req)) =
     (if http_status (fst (createOrder e db req)) = 201 then sendEmails e else [])"
proof (cases "\<exists>its t. validationErrors e = [] \<and> req_items req = ItemsArray its \<and> its \<noteq> [] \<and>
          list_all (resolves (catalog e)) its \<and> req_totalPrice req = Some t \<and> 0 < t")
  case True
  then obtain its t where h: "validationErrors e = []" "req_items req = ItemsArray its" "its \<noteq> []"
    "list_all (resolves (catalog e)) its" "req_totalPrice req = Some t" "0 < t" by blast
  show ?thesis
    using createOrder_reaches_check [OF h, of db] by (simp add: persistOrder_mails)
next
  case False
  show ?thesis
  proof (cases "req_items req")
    case (ItemsArray its)
    show ?thesis
    proof (cases "list_all (resolves (catalog e)) its")
      case True
      with False ItemsArray show ?thesis
        by (auto simp: createOrder_def split: option.splits)
    next
      case nr: False
      from processItems_rejects [OF nr, of "[]" 0] ItemsArray show ?thesis
        by (auto simp: createOrder_def split: option.splits)
    qed
  qed (simp_all add: createOrder_def)
qed

text \<open>
  Claim C8, as the controller has it. Whether the mail transport delivers or fails, the
  response and the stored orders are the same: a failed notification neither fails nor
  undoes the order. The two notifications share one \<^verbatim>\<open>try\<close> block: the owner's message is
  sent exactly when the order was created and the transport delivers it, and the customer's
  confirmation is sent exactly when, moreover, the owner's message was delivered and the
  transport delivers the confirmation.
\<close>

theorem mail_failure_keeps_order:
  "fst (createOrder (e\<lparr>ownerMailOk := a, customerMailOk := b\<rparr>) db req) = fst (createOrder e db req)
   \<and> fst (snd (createOrder (e\<lparr>ownerMailOk := a, customerMailOk := b\<rparr>) db req))
       = fst (snd (createOrder e db req))
   \<and> (MailSent Owner \<in> set (snd (snd (createOrder e db req))) \<longleftrightarrow>
        http_status (fst (createOrder e db req)) = 201 \<and> ownerMailOk e)
   \<and> (MailSent Customer \<in> set (snd (snd (createOrder e db req))) \<longleftrightarrow>
        http_status (fst (createOrder e db req)) = 201 \<and> ownerMailOk e \<and> customerMailOk e)"
proof -
  let ?e' = "e\<lparr>ownerMailOk := a, customerMailOk := b\<rparr>"
  have same: "fst (createOrder ?e' db req) = fst (createOrder e db req)"
    "fst (snd (createOrder ?e' db req)) = fst (snd (createOrder e db req))"
    using createOrder_mail_independent [where e = e and a = a and b = b and db = db and req = req]
    by simp_all
  have mails: "snd (snd (createOrder e db req)) =
      (if http_status (fst (createOrder e db req)) = 201 then sendEmails e else [])"
    by (rule createOrder_mails)
  have owner: "MailSent Owner \<in> set (sendEmails e) \<longleftrightarrow> ownerMailOk e"
    and customer: "MailSent Customer \<in> set (sendEmails e) \<longleftrightarrow> ownerMailOk e \<and> customerMailOk e"
    by (simp_all add: sendEmails_def)
  show ?thesis
    using same owner customer by (simp add: mails)
qed

lemma sample_order_created:
  assumes "\<bar>25.98 - c\<bar> \<le> 0.01" and "0 < c"
  shows "\<exists>ord. createOrder (sampleEnv\<lparr>ownerMailOk := a, customerMailOk := b\<rparr>) []
                 (sampleRequest c) =
               (\<lparr>http_status = 201, body = OrderCreated (createdData ord)\<rparr>, [ord],
                sendEmails (sampleEnv\<lparr>ownerMailOk := a, customerMailOk := b\<rparr>))
             \<and> od_totalPrice ord = 25.98"
proof -
  let ?e = "sampleEnv\<lparr>ownerMailOk := a, customerMailOk := b\<rparr>"
  have h1: "validationErrors ?e = []" by (simp add: sampleEnv_def)
  have h2: "catalog ?e sampleId = Some sampleBook" by (simp add: sampleEnv_def)
  have h3: "sampleId \<noteq> []" by (simp add: sampleId_def)
  have h4: "(1::real) \<le> 2" "0 \<le> price sampleBook" by (simp_all add: sampleBook_def)
  have h5: "title sampleBook \<noteq> []" "publisher sampleBook \<noteq> []" "image_url sampleBook \<noteq> []"
    by (simp_all add: sampleBook_def)
  have h8: "req_items (sampleRequest c) = ItemsArray [\<lparr>bookId = Some sampleId, reqQuantity = Some 2\<rparr>]"
    by (simp add: sampleRequest_def)
  have h9: "req_totalPrice (sampleRequest c) = Some c" by (simp add: sampleRequest_def)
  have h10: "\<bar>price sampleBook * 2 - c\<bar> \<le> 0.01" using assms(1) by (simp add: sampleBook_def)
  have h11: "length (trim (notesOf (sampleRequest c))) \<le> 1000"
    by (simp add: sampleRequest_def notesOf_def trim_def)
  have h12: "generateOrderId (clock ?e) (randomSuffix ?e) \<notin> set (map orderId [])"
    by simp
  have p: "price sampleBook * 2 = 25.98" by (simp add: sampleBook_def)
  from single_item_order_created [OF h1 h2 h3 h4 h5 h8 h9 assms(2) h10 sample_customer_ok h11 h12]
  show ?thesis by (auto simp: p)
qed

text \<open>The order is created, the customer's mail would be delivered, and the failure of
  the owner's mail is the only mail event: the confirmation is not attempted.\<close>

theorem owner_failure_skips_customer_mail:
  "http_status (fst (createOrder (sampleEnv\<lparr>ownerMailOk := False, customerMailOk := True\<rparr>) []
       (sampleRequest 25.98))) = 201
   \<and> snd (snd (createOrder (sampleEnv\<lparr>ownerMailOk := False, customerMailOk := True\<rparr>) []
       (sampleRequest 25.98))) = [MailFailed Owner]"
proof -
  have "\<bar>25.98 - 25.98\<bar> \<le> (0.01::real)" "(0::real) < 25.98" by simp_all
  from sample_order_created [OF this, where a = False and b = True]
  show ?thesis by (auto simp: sendEmails_def)
qed

text \<open>
  Claim C10. Whenever \<^verbatim>\<open>createOrder\<close> answers with a created order, every item of the
  request resolves, the claimed total is within 0.01 of the server's total, and the
  \<^verbatim>\<open>totalPrice\<close> of the order stored and of the order returned is the server's total, the
  sum of catalog price times quantity, not the claimed one.
\<close>

theorem created_total_is_server_total:
  assumes "createOrder e db req = (resp, db', ms)" and "body resp = OrderCreated d"
  shows "\<exists>its t ord. req_items req = ItemsArray its \<and> req_totalPrice req = Some t
           \<and> list_all (resolves (catalog e)) its
           \<and> \<bar>serverTotal (catalog e) its - t\<bar> \<le> 0.01
           \<and> db' = db @ [ord] \<and> od_totalPrice ord = serverTotal (catalog e) its
           \<and> d = createdData ord \<and> data_totalPrice d = serverTotal (catalog e) its"
proof -
  from assms have v: "validationErrors e = []"
    by (auto simp: createOrder_def split: if_splits)
  from assms v obtain its where its: "req_items req = ItemsArray its" "its \<noteq> []"
    by (cases "req_items req") (auto simp: createOrder_def split: if_splits)
  from assms v its obtain t where t: "req_totalPrice req = Some t" "0 < t"
    by (cases "req_totalPrice req") (auto simp: createOrder_def split: if_splits)
  have res: "list_all (resolves (catalog e)) its"
  proof (rule ccontr)
    assume "\<not> list_all (resolves (catalog e)) its"
    from processItems_rejects [OF this, of "[]" 0] assms v its t show False
      by (auto simp: createOrder_def)
  qed
  let ?c = "serverTotal (catalog e) its"
  have chk: "createOrder e db req =
           (if 0.01 < \<bar>?c - t\<bar>
            then (\<lparr>http_status = 400, body = TotalPriceMismatch ?c t\<rparr>, db, [])
            else persistOrder e db req (map (snapshot (catalog e)) its) ?c)"
    by (rule createOrder_reaches_check [OF v its res t])
  with assms have tol: "\<bar>?c - t\<bar> \<le> 0.01"
    by (auto split: if_splits)
  with chk assms(1) have p: "persistOrder e db req (map (snapshot (catalog e)) its) ?c = (resp, db', ms)"
    by simp
  from persistOrder_cases [OF p] assms(2)
  obtain ord where o: "save (clock e) (randomSuffix e) (docDate e) db
        (orderData req (map (snapshot (catalog e)) its) ?c) = Inr ord"
     "resp = \<lparr>http_status = 201, body = OrderCreated (createdData ord)\<rparr>" "db' = db @ [ord]"
    by auto
  from save_Inr [OF o(1)] have "od_totalPrice ord = ?c" by (simp add: orderData_def)
  moreover from o(2) assms(2) have "d = createdData ord" by simp
  ultimately show ?thesis
    using its t res tol o(3) by (auto simp: createdData_def)
qed

theorem created_total_is_server_total_witness:
  "\<exists>ord. createOrder sampleEnv [] (sampleRequest 25.985) =
          (\<lparr>http_status = 201, body = OrderCreated (createdData ord)\<rparr>, [ord],
           [MailSent Owner, MailSent Customer])
       \<and> od_totalPrice ord = 25.98 \<and> data_totalPrice (createdData ord) = 25.98"
proof -
  have e: "sampleEnv\<lparr>ownerMailOk := True, customerMailOk := True\<rparr> = sampleEnv"
    by (simp add: sampleEnv_def)
  have "\<bar>25.98 - 25.985\<bar> \<le> (0.01::real)" "(0::real) < 25.985" by simp_all
  from sample_order_created [OF this, where a = True and b = True]
  obtain ord where c: "createOrder sampleEnv [] (sampleRequest 25.985) =
      (\<lparr>http_status = 201, body = OrderCreated (createdData ord)\<rparr>, [ord], sendEmails sampleEnv)"
    by (auto simp: e)
  have b: "body \<lparr>http_status = 201, body = OrderCreated (createdData ord)\<rparr>
             = OrderCreated (createdData ord)"
    by simp
  have i: "req_items (sampleRequest 25.985) = ItemsArray [\<lparr>bookId = Some sampleId, reqQuantity = Some 2\<rparr>]"
    by (simp add: sampleRequest_def)
  from created_total_is_server_total [OF c b]
  obtain its ord' where r: "req_items (sampleRequest 25.985) = ItemsArray its"
    "[ord] = [] @ [ord']" "od_totalPrice ord' = serverTotal (catalog sampleEnv) its"
    "data_totalPrice (createdData ord) = serverTotal (catalog sampleEnv) its"
    by blast
  from r(1) i have "its = [\<lparr>bookId = Some sampleId, reqQuantity = Some 2\<rparr>]" by simp
  with r(2,3,4) have "od_totalPrice ord = 25.98 \<and> data_totalPrice (createdData ord) = 25.98"
    by (simp add: sample_serverTotal)
  moreover have "sendEmails sampleEnv = [MailSent Owner, MailSent Customer]"
    by (simp add: sendEmails_def sampleEnv_def)
  ultimately show ?thesis using c by auto
qed

section \<open>The checkout page: the cart after a submission\<close>

lemma handleSubmit_cases:
  "handleSubmit api f s = (s, [SetErrors (validateForm f)]) \<and> validateForm f \<noteq> []
   \<or> handleSubmit api f s = (s, [SetErrors [], ToastError, SetErrors submitFailed])
       \<and> (\<exists>e. orderItems (items s) = Inl e)
   \<or> (\<exists>its. orderItems (items s) = Inr its \<and> validateForm f = [] \<and>
         \<not> confirmedSuccess (api (submission f s its)) \<and>
         handleSubmit api f s =
           (s, [SetErrors [], Submitted (submission f s its), ToastError,
                SetErrors submitFailed]))
   \<or> (\<exists>its r d. orderItems (items s) = Inr its \<and> validateForm f = [] \<and>
         api (submission f s its) = Returned r \<and> success r \<and> data r = Some d \<and>
         handleSubmit api f s =
           (clearCart s,
            [SetErrors [], Submitted (submission f s its), ToastSuccess, CartCleared,
             RedirectToConfirmation (confirmationId d)]))"
  by (auto simp: handleSubmit_def split: sum.splits api_outcome.splits option.splits)

text \<open>
  Claim C7. \<^verbatim>\<open>handleSubmit\<close> clears the cart only after the call of the order API has
  returned a success with the order: then the events are the submission, the success
  toast, the clearing and the redirect, in that order. In every other case the cart, its
  items and its totals, is the one before; in particular when the call returns a failure
  or throws. And a confirmed success of a valid form does clear the cart.
\<close>

theorem cart_cleared_only_after_success:
  "(CartCleared \<in> set (snd (handleSubmit api f s)) \<longrightarrow>
      fst (handleSubmit api f s) = clearCart s \<and>
      (\<exists>its d. orderItems (items s) = Inr its \<and>
         confirmedSuccess (api (submission f s its)) \<and>
         snd (handleSubmit api f s) =
           [SetErrors [], Submitted (submission f s its), ToastSuccess, CartCleared,
            RedirectToConfirmation (confirmationId d)]))
   \<and> (CartCleared \<notin> set (snd (handleSubmit api f s)) \<longrightarrow> fst (handleSubmit api f s) = s)
   \<and> (\<forall>its. orderItems (items s) = Inr its \<and> \<not> confirmedSuccess (api (submission f s its))
         \<longrightarrow> fst (handleSubmit api f s) = s \<and> CartCleared \<notin> set (snd (handleSubmit api f s)))
   \<and> (\<forall>its. validateForm f = [] \<and> orderItems (items s) = Inr its \<and>
         confirmedSuccess (api (submission f s its))
         \<longrightarrow> fst (handleSubmit api f s) = clearCart s \<and>
             CartCleared \<in> set (snd (handleSubmit api f s)))"
proof -
  consider
      (invalid) "handleSubmit api f s = (s, [SetErrors (validateForm f)])" "validateForm f \<noteq> []"
    | (no_id) e where "handleSubmit api f s = (s, [SetErrors [], ToastError, SetErrors submitFailed])"
        "orderItems (items s) = Inl e"
    | (failed) its where "orderItems (items s) = Inr its" "validateForm f = []"
        "\<not> confirmedSuccess (api (submission f s its))"
        "handleSubmit api f s =
           (s, [SetErrors [], Submitted (submission f s its), ToastError,
                SetErrors submitFailed])"
    | (placed) its r d where "orderItems (items s) = Inr its" "validateForm f = []"
        "api (submission f s its) = Returned r" "success r" "data r = Some d"
        "handleSubmit api f s =
           (clearCart s,
            [SetErrors [], Submitted (submission f s its), ToastSuccess, CartCleared,
             RedirectToConfirmation (confirmationId d)])"
    using handleSubmit_cases [of api f s] by blast
  then show ?thesis
  proof cases
    case invalid
    then show ?thesis by auto
  next
    case no_id
    then show ?thesis by (auto simp: submitFailed_def)
  next
    case failed
    then show ?thesis by (auto simp: submitFailed_def)
  next
    case placed
    then show ?thesis by auto
  qed
qed


lemma sampleCart_items: "items sampleCart = [\<lparr>book = sampleBook, quantity = 2\<rparr>]"
  by (simp add: sampleCart_def addToCart_def initialCart_def items_setItems sampleBook_def
      sampleId_def bookKey_def)

lemma sampleCart_orderItems:
  "orderItems (items sampleCart) = Inr [\<lparr>bookId = Some sampleId, reqQuantity = Some 2\<rparr>]"
  by (simp add: sampleCart_items) (simp add: sampleBook_def sampleId_def bookKey_def)

lemma sampleForm_valid: "validateForm sampleForm = []"
  by code_simp

theorem cart_cleared_only_after_success_witness:
  "fst (handleSubmit networkError sampleForm sampleCart) = sampleCart
   \<and> fst (handleSubmit rejection sampleForm sampleCart) = sampleCart
   \<and> fst (handleSubmit acceptance sampleForm sampleCart) = clearCart sampleCart
   \<and> sampleCart \<noteq> clearCart sampleCart"
proof -
  let ?its = "[\<lparr>bookId = Some sampleId, reqQuantity = Some (2::real)\<rparr>]"
  have n: "\<not> confirmedSuccess (networkError (submission sampleForm sampleCart ?its))"
    by (simp add: networkError_def)
  have r: "\<not> confirmedSuccess (rejection (submission sampleForm sampleCart ?its))"
    by (simp add: rejection_def)
  have a: "confirmedSuccess (acceptance (submission sampleForm sampleCart ?its))"
    by (simp add: acceptance_def)
  have "fst (handleSubmit networkError sampleForm sampleCart) = sampleCart"
    using cart_cleared_only_after_success [of networkError sampleForm sampleCart]
      sampleCart_orderItems n by blast
  moreover have "fst (handleSubmit rejection sampleForm sampleCart) = sampleCart"
    using cart_cleared_only_after_success [of rejection sampleForm sampleCart]
      sampleCart_orderItems r by blast
  moreover have "fst (handleSubmit acceptance sampleForm sampleCart) = clearCart sampleCart"
    using cart_cleared_only_after_success [of acceptance sampleForm sampleCart]
      sampleCart_orderItems sampleForm_valid a by blast
  moreover have "sampleCart \<noteq> clearCart sampleCart"
  proof
    assume "sampleCart = clearCart sampleCart"
    then have "items sampleCart = items (clearCart sampleCart)" by simp
    then show False by (simp add: sampleCart_items clearCart_def)
  qed
  ultimately show ?thesis by blast
qed


end
